theory Spec2Isabelle
  imports Main
begin

section \<open>C library functions used by battery\_monitor.c\<close>

text \<open>
  Files are byte strings. A file system maps a path to the content of the file, or to
  \<open>None\<close> when \<open>fopen\<close> fails. C \<open>int\<close> values are modelled as \<open>int\<close>; the
  two places where the code converts text into a number go through \<open>int_of_long\<close>, which
  writes out what glibc does with a value that does not fit, and the one product of
  \<open>int\<close> values goes through \<open>int_mul\<close>, which wraps.
\<close>

type_synonym filesystem = "string \<Rightarrow> string option"

definition newline :: char where
  "newline = CHR 0x0A"

definition NUL :: char where
  "NUL = CHR 0x00"

definition isspace :: "char \<Rightarrow> bool" where
  "isspace c = (c \<in> set [CHR 0x20, CHR 0x09, CHR 0x0A, CHR 0x0B, CHR 0x0C, CHR 0x0D])"

definition isdigit :: "char \<Rightarrow> bool" where
  "isdigit c = (48 \<le> (of_char c :: nat) \<and> (of_char c :: nat) \<le> 57)"

text \<open>The C string held in a buffer: the bytes before the first NUL.\<close>

definition c_str :: "string \<Rightarrow> string" where
  "c_str buf = takeWhile (\<lambda>c. c \<noteq> NUL) buf"

text \<open>
  \<open>fgets n\<close> with a buffer of \<open>n + 1\<close> bytes: reads at most \<open>n\<close> bytes and stops after a
  newline. Returns the bytes read and the rest of the stream.
\<close>

fun fgets :: "nat \<Rightarrow> string \<Rightarrow> string \<times> string" where
  "fgets n [] = ([], [])"
| "fgets n (c # cs) =
     (if n = 0 then ([], c # cs)
      else if c = newline then ([c], cs)
      else (let (l, r) = fgets (n - 1) cs in (c # l, r)))"

text \<open>\<open>buf[strcspn(buf, "\n")] = 0\<close>: cut the C string at its first newline.\<close>

definition strip_newline :: "string \<Rightarrow> string" where
  "strip_newline buf = takeWhile (\<lambda>c. c \<noteq> newline) (c_str buf)"

fun digits_value :: "int \<Rightarrow> string \<Rightarrow> int" where
  "digits_value acc [] = acc"
| "digits_value acc (c # cs) =
     (if isdigit c then digits_value (acc * 10 + (int (of_char c) - 48)) cs else acc)"

text \<open>
  \<open>strtol(s, NULL, 10)\<close>: leading white space, an optional sign, decimal digits; the value
  is clamped to the range of a 64-bit \<open>long\<close>. \<open>None\<close> when no digit is found.
\<close>

definition clamp_long :: "int \<Rightarrow> int" where
  "clamp_long x = max (- (2 ^ 63)) (min (2 ^ 63 - 1) x)"

definition strtol :: "string \<Rightarrow> int option" where
  "strtol s =
     (let s1 = dropWhile isspace s;
          neg = (s1 \<noteq> [] \<and> hd s1 = CHR ''-'');
          s2 = (if s1 \<noteq> [] \<and> (hd s1 = CHR ''-'' \<or> hd s1 = CHR ''+'') then tl s1 else s1)
      in if s2 \<noteq> [] \<and> isdigit (hd s2)
         then Some (clamp_long (if neg then - digits_value 0 s2 else digits_value 0 s2))
         else None)"

text \<open>The conversion of a \<open>long\<close> to a 32-bit \<open>int\<close>: the low 32 bits, read as signed.\<close>

definition int_of_long :: "int \<Rightarrow> int" where
  "int_of_long x = (x + 2 ^ 31) mod 2 ^ 32 - 2 ^ 31"

text \<open>
  The product of two \<open>int\<close> values as the machine computes it: the low 32 bits of the
  product, read as signed. It is the product itself when that fits in an \<open>int\<close>.
\<close>

definition int_mul :: "int \<Rightarrow> int \<Rightarrow> int" where
  "int_mul a b = int_of_long (a * b)"

text \<open>\<open>atoi(s)\<close> is \<open>(int) strtol(s, NULL, 10)\<close>; it is 0 when \<open>s\<close> holds no number.\<close>

definition atoi :: "string \<Rightarrow> int" where
  "atoi s = (case strtol s of None \<Rightarrow> 0 | Some v \<Rightarrow> int_of_long v)"

text \<open>
  \<open>fscanf(file, "%d", &x)\<close> on a freshly opened file: \<open>Some v\<close> when it returns 1 and
  stores \<open>v\<close>, \<open>None\<close> when it stores nothing (matching failure or end of file).
\<close>

definition fscanf_d :: "string \<Rightarrow> int option" where
  "fscanf_d content = map_option int_of_long (strtol content)"

text \<open>
  \<open>sscanf(line, "%255[^=]=%255s", key, value) == 2\<close>: a non-empty key of at most 255
  bytes other than \<open>=\<close>, the \<open>=\<close> itself, optional white space, and a non-empty value of at
  most 255 bytes that are not white space.
\<close>

definition sscanf_key_value :: "string \<Rightarrow> (string \<times> string) option" where
  "sscanf_key_value line =
     (let key = take 255 (takeWhile (\<lambda>c. c \<noteq> CHR ''='') line);
          rest = drop (length key) line
      in if key = [] then None
         else (case rest of
                 [] \<Rightarrow> None
               | c # r \<Rightarrow>
                   if c \<noteq> CHR ''='' then None
                   else (let v = take 255 (takeWhile (\<lambda>c. \<not> isspace c) (dropWhile isspace r))
                         in if v = [] then None else Some (key, v))))"

section \<open>Configuration\<close>

record BatteryConfig =
  warning_level :: int
  critical_level :: int
  check_interval :: int
  alert_timeout :: int
  config_path :: string
  icon_charging :: string
  icon_battery :: string
  icon_low :: string
  force_suspend :: int
  impossible_alerts :: int
  suspend_method :: int

text \<open>
  \<open>init_default_config\<close>; the argument is the result of \<open>getenv("HOME")\<close>. \<open>snprintf\<close>
  into the 512-byte \<open>config_path\<close> keeps at most 511 bytes.
\<close>

definition init_default_config :: "string option \<Rightarrow> BatteryConfig" where
  "init_default_config home =
     \<lparr> warning_level = 20,
       critical_level = 10,
       check_interval = 30,
       alert_timeout = 30,
       config_path =
         (case home of
            Some h \<Rightarrow> take 511 (h @ ''/.config/cool-little-battery-monitor.conf'')
          | None \<Rightarrow> ''/tmp/cool-little-battery-monitor.conf''),
       icon_charging = ''battery-caution-charging'',
       icon_battery = ''battery-good'',
       icon_low = ''battery-caution'',
       force_suspend = 1,
       impossible_alerts = 1,
       suspend_method = 0 \<rparr>"

text \<open>The \<open>strcmp\<close> chain of \<open>load_config\<close>: unknown keys change nothing.\<close>

definition set_config_key :: "BatteryConfig \<Rightarrow> string \<Rightarrow> string \<Rightarrow> BatteryConfig" where
  "set_config_key cfg key v =
     (if key = ''warning_level'' then cfg\<lparr>warning_level := atoi v\<rparr>
      else if key = ''critical_level'' then cfg\<lparr>critical_level := atoi v\<rparr>
      else if key = ''check_interval'' then cfg\<lparr>check_interval := atoi v\<rparr>
      else if key = ''alert_timeout'' then cfg\<lparr>alert_timeout := atoi v\<rparr>
      else if key = ''force_suspend'' then cfg\<lparr>force_suspend := atoi v\<rparr>
      else if key = ''impossible_alerts'' then cfg\<lparr>impossible_alerts := atoi v\<rparr>
      else if key = ''suspend_method'' then cfg\<lparr>suspend_method := atoi v\<rparr>
      else if key = ''icon_charging'' then cfg\<lparr>icon_charging := v\<rparr>
      else if key = ''icon_battery'' then cfg\<lparr>icon_battery := v\<rparr>
      else if key = ''icon_low'' then cfg\<lparr>icon_low := v\<rparr>
      else cfg)"

text \<open>
  What a line assigns: \<open>Some (key, value)\<close> for a line that reaches the \<open>strcmp\<close> chain,
  \<open>None\<close> for a comment, an empty line and a line that \<open>sscanf\<close> does not split in two.
  The argument is the buffer as \<open>fgets\<close> filled it.
\<close>

definition line_setting :: "string \<Rightarrow> (string \<times> string) option" where
  "line_setting buf =
     (let line = strip_newline buf
      in if line = [] \<or> hd line = CHR ''#'' then None else sscanf_key_value line)"

definition config_line :: "BatteryConfig \<Rightarrow> string \<Rightarrow> BatteryConfig" where
  "config_line cfg buf =
     (case line_setting buf of None \<Rightarrow> cfg | Some (key, v) \<Rightarrow> set_config_key cfg key v)"

text \<open>
  The reads of the \<open>while (fgets(line, sizeof(line), file))\<close> loop, \<open>line\<close> being 512
  bytes: the successive buffers, until the end of the file.
\<close>

function read_lines :: "string \<Rightarrow> string list" where
  "read_lines s =
     (if s = [] then [] else (let (l, r) = fgets 511 s in l # read_lines r))"
  by pat_completeness auto
termination
proof (relation "measure length")
  show "wf (measure length)" by simp
next
  fix s l r :: string and p :: "string \<times> string"
  assume s: "s \<noteq> []" and p: "p = fgets 511 s" and lr: "(l, r) = p"
  have le: "length (snd (fgets n t)) \<le> length t" for n t
    by (induction n t rule: fgets.induct) (auto split: prod.splits)
  from s obtain c cs where cs: "s = c # cs" by (cases s) auto
  have "length r \<le> length cs"
  proof (cases "c = newline")
    case True
    with p lr cs show ?thesis by simp
  next
    case False
    with p lr cs have "r = snd (fgets 510 cs)" by (auto split: prod.splits)
    with le show ?thesis by simp
  qed
  with cs show "(r, s) \<in> measure length" by simp
qed

fun config_lines :: "BatteryConfig \<Rightarrow> string list \<Rightarrow> BatteryConfig" where
  "config_lines cfg [] = cfg"
| "config_lines cfg (buf # bufs) = config_lines (config_line cfg buf) bufs"

text \<open>\<open>load_config\<close>: a file that cannot be opened leaves the configuration as it is.\<close>

definition load_config :: "filesystem \<Rightarrow> BatteryConfig \<Rightarrow> BatteryConfig" where
  "load_config fs cfg =
     (case fs (config_path cfg) of
        None \<Rightarrow> cfg
      | Some content \<Rightarrow> config_lines cfg (read_lines content))"

section \<open>Sampling the battery\<close>

record BatteryStatus =
  percentage :: int
  charging :: int
  present :: int
  status :: string
  time_remaining :: int

text \<open>\<open>BatteryStatus status = {0}\<close>\<close>

definition status_zero :: BatteryStatus where
  "status_zero = \<lparr> percentage = 0, charging = 0, present = 0, status = [], time_remaining = 0 \<rparr>"

definition battery_paths :: "string list" where
  "battery_paths = [''/sys/class/power_supply/BAT0'', ''/sys/class/power_supply/BAT1'']"

text \<open>
  The body of the loop of \<open>get_battery_status\<close> once a device reports presence: the
  capacity and the status are read when their files open, and left at zero otherwise.
  \<open>fgets\<close> fills the 32-byte \<open>status\<close> field.
\<close>

definition read_battery :: "filesystem \<Rightarrow> string \<Rightarrow> BatteryStatus" where
  "read_battery fs dir =
     (let st1 = status_zero\<lparr>present := 1\<rparr>;
          st2 = (case fs (dir @ ''/capacity'') of
                   None \<Rightarrow> st1
                 | Some content \<Rightarrow>
                     (case fscanf_d content of
                        None \<Rightarrow> st1
                      | Some v \<Rightarrow> st1\<lparr>percentage := v\<rparr>))
      in case fs (dir @ ''/status'') of
           None \<Rightarrow> st2
         | Some content \<Rightarrow>
             (let label = strip_newline (fst (fgets 31 content))
              in st2\<lparr>status := label,
                     charging := (if label = ''Charging'' then 1 else 0)\<rparr>))"

text \<open>
  The loop over \<open>battery_paths\<close>: a device whose \<open>present\<close> file does not open, does not
  hold a number, or holds 0 is skipped; the first present device ends the loop.
\<close>

fun probe_batteries :: "filesystem \<Rightarrow> string list \<Rightarrow> BatteryStatus" where
  "probe_batteries fs [] = status_zero"
| "probe_batteries fs (dir # dirs) =
     (case fs (dir @ ''/present'') of
        None \<Rightarrow> probe_batteries fs dirs
      | Some content \<Rightarrow>
          (case fscanf_d content of
             None \<Rightarrow> probe_batteries fs dirs
           | Some p \<Rightarrow> if p \<noteq> 0 then read_battery fs dir else probe_batteries fs dirs))"

definition get_battery_status :: "filesystem \<Rightarrow> BatteryStatus" where
  "get_battery_status fs = probe_batteries fs battery_paths"

section \<open>Presentation and suspend\<close>

text \<open>
  The calls into GTK, libnotify and the shell are recorded as a trace of events, in the
  order the code makes them. The texts of a notification are determined by its kind and
  the numbers formatted into it.
\<close>

datatype tooltip =
    NoBattery
  | ChargingTip int
  | CriticalTip int
  | LowTip int
  | BatteryTip int

datatype alert_text =
    CriticalBattery int
  | LowBattery int int
  | Suspending

datatype urgency = URGENCY_NORMAL | URGENCY_CRITICAL

datatype event =
    TrayIcon string tooltip
  | Notify alert_text urgency int
  | DestroyDialog
  | AlertDialog alert_text
  | Sleep nat
  | ForceSuspend
  | System string int

text \<open>
  The module-level variables. \<open>alert_dialog\<close> and \<open>tray_icon\<close> are pointers; the state
  records whether they are non-NULL. \<open>initial_state\<close> holds their values at the first
  call of the timer callback, when \<open>main\<close> has created the tray icon.
\<close>

record monitor_state =
  last_percentage :: int
  last_charging_state :: int
  last_alert_time :: int
  alert_active :: int
  alert_dialog :: bool
  tray_icon :: bool

definition initial_state :: monitor_state where
  "initial_state =
     \<lparr> last_percentage = - 1, last_charging_state = - 1, last_alert_time = 0,
       alert_active = 0, alert_dialog = False, tray_icon = True \<rparr>"

definition update_tray_icon :: "BatteryConfig \<Rightarrow> monitor_state \<Rightarrow> BatteryStatus \<Rightarrow> event list" where
  "update_tray_icon cfg s st =
     (if \<not> tray_icon s then []
      else if present st = 0 then [TrayIcon ''battery-missing'' NoBattery]
      else if charging st \<noteq> 0 then [TrayIcon (icon_charging cfg) (ChargingTip (percentage st))]
      else if percentage st \<le> critical_level cfg
        then [TrayIcon (icon_low cfg) (CriticalTip (percentage st))]
      else if percentage st \<le> warning_level cfg
        then [TrayIcon (icon_low cfg) (LowTip (percentage st))]
      else [TrayIcon (icon_battery cfg) (BatteryTip (percentage st))])"

text \<open>
  \<open>show_notification\<close>: the event carries the urgency and the timeout in milliseconds
  given to libnotify; \<open>config.alert_timeout * 1000\<close> is a product of \<open>int\<close> values and
  wraps for a timeout above 2147483 seconds. \<open>main\<close> initialises libnotify before it
  starts the timer and exits when that fails, so the callback always finds it
  initialised.
\<close>

definition show_notification :: "BatteryConfig \<Rightarrow> alert_text \<Rightarrow> string \<Rightarrow> event list" where
  "show_notification cfg txt urg =
     (if urg = ''critical'' then [Notify txt URGENCY_CRITICAL (int_mul (alert_timeout cfg) 1000)]
      else [Notify txt URGENCY_NORMAL 5000])"

text \<open>
  \<open>show_impossible_alert\<close>: does nothing when \<open>impossible_alerts\<close> is 0. Otherwise it
  closes an open dialog, runs the modal dialog until the user answers, destroys it and
  sets \<open>alert_active\<close>.
\<close>

definition show_impossible_alert ::
  "BatteryConfig \<Rightarrow> monitor_state \<Rightarrow> alert_text \<Rightarrow> monitor_state \<times> event list" where
  "show_impossible_alert cfg s txt =
     (if impossible_alerts cfg = 0 then (s, [])
      else (s\<lparr>alert_dialog := False, alert_active := 1\<rparr>,
            (if alert_dialog s then [DestroyDialog] else []) @ [AlertDialog txt]))"

definition suspend_commands :: "string list" where
  "suspend_commands =
     [''systemctl suspend'',
      ''pm-suspend'',
      ''dbus-send --system --print-reply --dest=org.freedesktop.login1 /org/freedesktop/login1 ''
        @ [CHR 0x22] @ ''org.freedesktop.login1.Manager.Suspend'' @ [CHR 0x22] @ '' boolean:true'',
      ''echo mem > /sys/power/state'']"

text \<open>
  The fallback loop \<open>for (i = 0; i < 4; i++)\<close> of \<open>force_system_suspend\<close>, as a recursion
  over the indices still to visit. \<open>sys\<close> gives the return value of \<open>system\<close> for a
  command; each command is run at most once in a call.
\<close>

fun suspend_fallbacks :: "(string \<Rightarrow> int) \<Rightarrow> int \<Rightarrow> nat list \<Rightarrow> event list" where
  "suspend_fallbacks sys m [] = []"
| "suspend_fallbacks sys m (i # is) =
     (if int i \<noteq> m
      then (let rc = sys (suspend_commands ! i)
            in System (suspend_commands ! i) rc
                 # (if rc = 0 then [] else suspend_fallbacks sys m is))
      else suspend_fallbacks sys m is)"

definition force_system_suspend :: "BatteryConfig \<Rightarrow> (string \<Rightarrow> int) \<Rightarrow> event list" where
  "force_system_suspend cfg sys =
     ForceSuspend # show_notification cfg Suspending ''critical''
       @ (if 0 \<le> suspend_method cfg \<and> suspend_method cfg < 4
          then (let cmd = suspend_commands ! nat (suspend_method cfg); rc = sys cmd
                in System cmd rc
                     # (if rc \<noteq> 0 then suspend_fallbacks sys (suspend_method cfg) [0..<4] else []))
          else [])"

section \<open>The timer callback\<close>

text \<open>
  What one call of \<open>check_battery_timer\<close> reads from outside: the hardware when it
  starts, the clock, the hardware after the 10 second sleep, and the return values of
  \<open>system\<close>.
\<close>

record environment =
  sysfs_now :: filesystem
  clock :: int
  sysfs_later :: filesystem
  system_rc :: "string \<Rightarrow> int"

text \<open>The statement \<open>if (alert_dialog) { gtk_widget_destroy(alert_dialog); alert_dialog = NULL; }\<close>\<close>

definition dismiss_alert :: "monitor_state \<Rightarrow> monitor_state \<times> event list" where
  "dismiss_alert s = (s\<lparr>alert_dialog := False\<rparr>, if alert_dialog s then [DestroyDialog] else [])"

text \<open>The block under \<open>if (config.force_suspend)\<close>.\<close>

definition grace_sequence :: "BatteryConfig \<Rightarrow> environment \<Rightarrow> event list" where
  "grace_sequence cfg env =
     Sleep 10
       # (let final_check = get_battery_status (sysfs_later env)
          in if percentage final_check \<le> critical_level cfg \<and> charging final_check = 0
             then force_system_suspend cfg (system_rc env)
             else [])"

text \<open>
  \<open>check_battery_timer\<close> returns the new values of the module-level variables and the
  trace. Its C return value is always \<open>TRUE\<close>. One call runs from start to end: no
  other call of the callback runs inside it.
\<close>

definition check_battery_timer ::
  "BatteryConfig \<Rightarrow> environment \<Rightarrow> monitor_state \<Rightarrow> monitor_state \<times> event list" where
  "check_battery_timer cfg env s =
     (let st = get_battery_status (sysfs_now env)
      in if present st = 0 then (s, update_tray_icon cfg s st)
         else
           (let current_time = clock env;
                icon = update_tray_icon cfg s st
            in if charging st \<noteq> 0
               then (let (s1, d) = dismiss_alert (s\<lparr>alert_active := 0\<rparr>)
                     in (s1\<lparr>last_percentage := percentage st,
                             last_charging_state := charging st\<rparr>, icon @ d))
               else
                 (let (s2, tr) =
                    (if percentage st \<le> critical_level cfg
                     then (if current_time - last_alert_time s > 30
                           then (let txt = CriticalBattery (percentage st);
                                     n = show_notification cfg txt ''critical'';
                                     (s1, a) = show_impossible_alert cfg s txt;
                                     g = (if force_suspend cfg \<noteq> 0
                                          then grace_sequence cfg env else [])
                                 in (s1\<lparr>last_alert_time := current_time\<rparr>, n @ a @ g))
                           else (s, []))
                     else if percentage st \<le> warning_level cfg
                     then (if current_time - last_alert_time s > 120
                           then (let txt = LowBattery (percentage st) (critical_level cfg);
                                     n = show_notification cfg txt ''critical'';
                                     (s1, a) = show_impossible_alert cfg s txt
                                 in (s1\<lparr>last_alert_time := current_time\<rparr>, n @ a))
                           else (s, []))
                     else dismiss_alert (s\<lparr>alert_active := 0\<rparr>))
                  in (s2\<lparr>last_percentage := percentage st,
                          last_charging_state := charging st\<rparr>, icon @ tr))))"

section \<open>Reading a trace\<close>

text \<open>
  The events of the specification's vocabulary: \<open>Notify\<close> and \<open>ImpossibleAlert\<close> are the
  events \<open>Notify\<close> and \<open>AlertDialog\<close>; the \<open>Suspend\<close> action is the call of
  \<open>force_system_suspend\<close>, which shows as \<open>ForceSuspend\<close> followed by the commands it runs.
\<close>

fun is_alert :: "event \<Rightarrow> bool" where
  "is_alert (Notify txt u t) = True"
| "is_alert (AlertDialog txt) = True"
| "is_alert e = False"

fun is_suspend :: "event \<Rightarrow> bool" where
  "is_suspend ForceSuspend = True"
| "is_suspend (System c rc) = True"
| "is_suspend e = False"

fun is_system :: "event \<Rightarrow> bool" where
  "is_system (System c rc) = True"
| "is_system e = False"

text \<open>The commands run in a trace, each with the value \<open>system\<close> returned.\<close>

fun attempts :: "event list \<Rightarrow> (string \<times> int) list" where
  "attempts [] = []"
| "attempts (System c rc # es) = (c, rc) # attempts es"
| "attempts (e # es) = attempts es"




section \<open>The fallback chain in the words of the specification\<close>

text \<open>
  For comparison with \<open>force_system_suspend\<close>: the configured method first, then every
  remaining method in table order; the commands are attempted in that order up to and
  including the first one that succeeds.
\<close>

definition spec_fallback_chain :: "string list \<Rightarrow> nat \<Rightarrow> string list" where
  "spec_fallback_chain table m =
     map ((!) table) (m # filter (\<lambda>i. i \<noteq> m) [0..<length table])"

fun spec_attempt_in_order :: "(string \<Rightarrow> int) \<Rightarrow> string list \<Rightarrow> (string \<times> int) list" where
  "spec_attempt_in_order sys [] = []"
| "spec_attempt_in_order sys (c # cs) =
     (c, sys c) # (if sys c = 0 then [] else spec_attempt_in_order sys cs)"


section \<open>What a configuration file assigns\<close>

text \<open>
  The buffers \<open>load_config\<close> reads, and the value of the last line among them that
  assigns a given key.
\<close>

definition config_file_lines :: "filesystem \<Rightarrow> BatteryConfig \<Rightarrow> string list" where
  "config_file_lines fs cfg =
     (case fs (config_path cfg) of None \<Rightarrow> [] | Some content \<Rightarrow> read_lines content)"

fun last_setting :: "string \<Rightarrow> string list \<Rightarrow> string option" where
  "last_setting key [] = None"
| "last_setting key (buf # bufs) =
     (case last_setting key bufs of
        Some v \<Rightarrow> Some v
      | None \<Rightarrow>
          (case line_setting buf of
             None \<Rightarrow> None
           | Some (k, v) \<Rightarrow> if k = key then Some v else None))"

section \<open>Concrete inputs\<close>

text \<open>
  A \<open>/sys/class/power_supply\<close> tree with one battery \<open>BAT0\<close> that is present, with the
  given texts in its \<open>capacity\<close> and \<open>status\<close> files, and a tree with no readable file.
\<close>

definition sysfs_bat0 :: "string \<Rightarrow> string \<Rightarrow> filesystem" where
  "sysfs_bat0 cap label =
     (\<lambda>path.
        if path = ''/sys/class/power_supply/BAT0/present'' then Some (''1'' @ [newline])
        else if path = ''/sys/class/power_supply/BAT0/capacity'' then Some (cap @ [newline])
        else if path = ''/sys/class/power_supply/BAT0/status'' then Some (label @ [newline])
        else None)"

definition sysfs_empty :: filesystem where
  "sysfs_empty = (\<lambda>path. None)"

text \<open>The defaults, with \<open>HOME\<close> unset: warning level 20, critical level 10.\<close>

definition default_config :: BatteryConfig where
  "default_config = init_default_config None"

text \<open>One call of the timer callback in which every suspend command fails.\<close>

definition poll :: "filesystem \<Rightarrow> int \<Rightarrow> filesystem \<Rightarrow> environment" where
  "poll now t later =
     \<lparr> sysfs_now = now, clock = t, sysfs_later = later, system_rc = (\<lambda>c. 1) \<rparr>"


text \<open>
  A configuration file with a warning level outside 1..100, a critical level that is
  not a number, a valid check interval and no other key.
\<close>

definition sample_config_file :: string where
  "sample_config_file =
     ''# thresholds'' @ [newline] @
     ''warning_level=150'' @ [newline] @
     ''critical_level=abc'' @ [newline] @
     ''check_interval=60'' @ [newline]"

definition config_store :: filesystem where
  "config_store =
     (\<lambda>path. if path = ''/tmp/cool-little-battery-monitor.conf''
              then Some sample_config_file else None)"

section \<open>Facts about the parts\<close>

lemma update_tray_icon_quiet:
  "\<not> list_ex is_alert (update_tray_icon cfg s st)"
  "\<not> list_ex is_suspend (update_tray_icon cfg s st)"
  "Sleep n \<notin> set (update_tray_icon cfg s st)"
  "DestroyDialog \<notin> set (update_tray_icon cfg s st)"
  by (simp_all add: update_tray_icon_def)

lemma suspend_fallbacks_events:
  "e \<in> set (suspend_fallbacks sys m js) \<Longrightarrow> \<exists>c rc. e = System c rc"
  by (induction js) (auto simp: Let_def split: if_splits)

lemma force_system_suspend_events:
  "e \<in> set (force_system_suspend cfg sys) \<Longrightarrow>
     e = ForceSuspend \<or> e = Notify Suspending URGENCY_CRITICAL (int_mul (alert_timeout cfg) 1000)
       \<or> (\<exists>c rc. e = System c rc)"
  by (auto simp: force_system_suspend_def show_notification_def Let_def
           split: if_splits dest: suspend_fallbacks_events)

lemma force_system_suspend_starts: "ForceSuspend \<in> set (force_system_suspend cfg sys)"
  by (simp add: force_system_suspend_def)

lemma read_battery_present: "present (read_battery fs dir) = 1"
  by (simp add: read_battery_def Let_def split: option.splits)

lemma probe_batteries_absent:
  "present (probe_batteries fs dirs) = 0 \<Longrightarrow> probe_batteries fs dirs = status_zero"
  by (induction dirs) (auto simp: read_battery_present split: option.splits if_splits)

lemma get_battery_status_absent:
  "present (get_battery_status fs) = 0 \<Longrightarrow> get_battery_status fs = status_zero"
  by (simp add: get_battery_status_def probe_batteries_absent)

lemma length_suspend_commands: "length suspend_commands = 4"
  by (simp add: suspend_commands_def)

lemma suspend_fallbacks_no_engine_events:
  "filter (\<lambda>e. \<not> is_system e) (suspend_fallbacks sys m js) = []"
  by (induction js) (simp_all add: Let_def)

lemma force_system_suspend_engine_events:
  "filter (\<lambda>e. \<not> is_system e) (force_system_suspend cfg sys) =
     [ForceSuspend, Notify Suspending URGENCY_CRITICAL (int_mul (alert_timeout cfg) 1000)]"
  by (simp add: force_system_suspend_def show_notification_def Let_def
                suspend_fallbacks_no_engine_events)

lemma suspend_fallbacks_cong:
  "\<forall>i \<in> set js. i < 4 \<Longrightarrow> \<forall>c \<in> set suspend_commands. sys1 c = sys2 c \<Longrightarrow>
     suspend_fallbacks sys1 m js = suspend_fallbacks sys2 m js"
proof (induction js)
  case Nil
  then show ?case by simp
next
  case (Cons i js)
  then have "suspend_commands ! i \<in> set suspend_commands"
    by (simp add: length_suspend_commands)
  with Cons.prems(2) have "sys1 (suspend_commands ! i) = sys2 (suspend_commands ! i)"
    by blast
  with Cons show ?case by (simp add: Let_def)
qed

lemma force_system_suspend_cong:
  assumes "\<forall>c \<in> set suspend_commands. sys1 c = sys2 c"
  shows "force_system_suspend cfg sys1 = force_system_suspend cfg sys2"
proof (cases "0 \<le> suspend_method cfg \<and> suspend_method cfg < 4")
  case True
  then have "nat (suspend_method cfg) < length suspend_commands"
    unfolding length_suspend_commands by linarith
  then have "suspend_commands ! nat (suspend_method cfg) \<in> set suspend_commands"
    by (rule nth_mem)
  with assms have "sys1 (suspend_commands ! nat (suspend_method cfg))
                 = sys2 (suspend_commands ! nat (suspend_method cfg))" by blast
  moreover from assms
  have "suspend_fallbacks sys1 (suspend_method cfg) [0..<4]
      = suspend_fallbacks sys2 (suspend_method cfg) [0..<4]"
    by (intro suspend_fallbacks_cong) simp_all
  ultimately show ?thesis by (simp add: force_system_suspend_def Let_def)
next
  case False
  then show ?thesis by (auto simp add: force_system_suspend_def)
qed

lemma attempts_suspend_fallbacks:
  "attempts (suspend_fallbacks sys m js) =
     spec_attempt_in_order sys (map ((!) suspend_commands) (filter (\<lambda>i. int i \<noteq> m) js))"
  by (induction js) (simp_all add: Let_def)

lemma attempts_force_system_suspend:
  assumes "0 \<le> suspend_method cfg" and "suspend_method cfg < 4"
  shows "attempts (force_system_suspend cfg sys) =
           spec_attempt_in_order sys
             (spec_fallback_chain suspend_commands (nat (suspend_method cfg)))"
proof -
  have "(\<lambda>i. int i \<noteq> suspend_method cfg) = (\<lambda>i. i \<noteq> nat (suspend_method cfg))"
    using assms by auto
  then show ?thesis
    using assms
    by (simp add: force_system_suspend_def show_notification_def Let_def
                  attempts_suspend_fallbacks spec_fallback_chain_def length_suspend_commands)
qed






lemma config_lines_field:
  assumes "\<And>cfg k v. f (set_config_key cfg k v) = (if k = key then g v else f cfg)"
  shows "f (config_lines cfg bufs) =
           (case last_setting key bufs of None \<Rightarrow> f cfg | Some v \<Rightarrow> g v)"
proof (induction bufs arbitrary: cfg)
  case Nil
  then show ?case by simp
next
  case (Cons buf bufs)
  have "f (config_line cfg buf) =
          (case line_setting buf of
             None \<Rightarrow> f cfg
           | Some (k, v) \<Rightarrow> if k = key then g v else f cfg)"
    by (simp add: config_line_def assms split: option.splits)
  with Cons.IH [of "config_line cfg buf"] show ?case
    by (simp split: option.splits)
qed

lemma set_config_key_fields:
  "warning_level (set_config_key cfg k v) = (if k = ''warning_level'' then atoi v else warning_level cfg)"
  "critical_level (set_config_key cfg k v) = (if k = ''critical_level'' then atoi v else critical_level cfg)"
  "check_interval (set_config_key cfg k v) = (if k = ''check_interval'' then atoi v else check_interval cfg)"
  "alert_timeout (set_config_key cfg k v) = (if k = ''alert_timeout'' then atoi v else alert_timeout cfg)"
  "force_suspend (set_config_key cfg k v) = (if k = ''force_suspend'' then atoi v else force_suspend cfg)"
  "impossible_alerts (set_config_key cfg k v) = (if k = ''impossible_alerts'' then atoi v else impossible_alerts cfg)"
  "suspend_method (set_config_key cfg k v) = (if k = ''suspend_method'' then atoi v else suspend_method cfg)"
  "icon_charging (set_config_key cfg k v) = (if k = ''icon_charging'' then v else icon_charging cfg)"
  "icon_battery (set_config_key cfg k v) = (if k = ''icon_battery'' then v else icon_battery cfg)"
  "icon_low (set_config_key cfg k v) = (if k = ''icon_low'' then v else icon_low cfg)"
  "config_path (set_config_key cfg k v) = config_path cfg"
  by (simp_all add: set_config_key_def)

lemma config_lines_config_path: "config_path (config_lines cfg bufs) = config_path cfg"
  by (induction bufs arbitrary: cfg)
     (simp_all add: config_line_def set_config_key_fields(11) split: option.splits)

lemma load_config_lines: "load_config fs cfg = config_lines cfg (config_file_lines fs cfg)"
  by (simp add: load_config_def config_file_lines_def split: option.splits)

lemma sample_settings:
  "last_setting ''warning_level'' (config_file_lines config_store default_config) = Some ''150''"
  "last_setting ''critical_level'' (config_file_lines config_store default_config) = Some ''abc''"
  "last_setting ''check_interval'' (config_file_lines config_store default_config) = Some ''60''"
  "last_setting ''alert_timeout'' (config_file_lines config_store default_config) = None"
  "last_setting ''force_suspend'' (config_file_lines config_store default_config) = None"
  "last_setting ''impossible_alerts'' (config_file_lines config_store default_config) = None"
  "last_setting ''suspend_method'' (config_file_lines config_store default_config) = None"
  "last_setting ''icon_low'' (config_file_lines config_store default_config) = None"
  by code_simp+

lemma default_values:
  "warning_level default_config = 20" "critical_level default_config = 10"
  "check_interval default_config = 30" "alert_timeout default_config = 30"
  "force_suspend default_config = 1" "impossible_alerts default_config = 1"
  "suspend_method default_config = 0" "icon_low default_config = ''battery-caution''"
  by (simp_all add: default_config_def init_default_config_def)

lemma sample_values: "atoi ''150'' = 150" "atoi ''abc'' = 0" "atoi ''60'' = 60"
  by code_simp+

lemma timeout_values:
  "int_mul 30 1000 = 30000" "int_mul 3000000 1000 = - 1294967296"
  by (simp_all add: int_mul_def int_of_long_def)

lemma attempts_append: "attempts (xs @ ys) = attempts xs @ attempts ys"
  by (induction xs rule: attempts.induct) simp_all

lemma attempts_presentation:
  "attempts (update_tray_icon cfg s st) = []"
  "attempts (show_notification cfg txt urg) = []"
  "attempts (snd (show_impossible_alert cfg s txt)) = []"
  by (simp_all add: update_tray_icon_def show_notification_def show_impossible_alert_def)

lemma configured_command_runs:
  "0 \<le> suspend_method cfg \<Longrightarrow> suspend_method cfg < 4 \<Longrightarrow>
     System (suspend_commands ! nat (suspend_method cfg))
       (sys (suspend_commands ! nat (suspend_method cfg))) \<in> set (force_system_suspend cfg sys)"
  by (simp add: force_system_suspend_def Let_def)

lemma chain_0_all_fail_attempts:
  "spec_attempt_in_order (\<lambda>c. 1) (spec_fallback_chain suspend_commands 0)
     = [(''systemctl suspend'', 1), (''pm-suspend'', 1), (suspend_commands ! 2, 1),
        (''echo mem > /sys/power/state'', 1)]"
  by code_simp

lemma critical_alert_sets_timer:
  assumes "present (get_battery_status (sysfs_now env)) \<noteq> 0"
    and "charging (get_battery_status (sysfs_now env)) = 0"
    and "percentage (get_battery_status (sysfs_now env)) \<le> critical_level cfg"
    and "clock env - last_alert_time s > 30"
  shows "last_alert_time (fst (check_battery_timer cfg env s)) = clock env"
  using assms
  by (auto simp: check_battery_timer_def show_impossible_alert_def Let_def split: if_splits)

text \<open>The readings of the concrete trees.\<close>

lemma reading_10_discharging:
  "get_battery_status (sysfs_bat0 ''10'' ''Discharging'') =
     \<lparr>percentage = 10, charging = 0, present = 1, status = ''Discharging'',
      time_remaining = 0\<rparr>"
  by code_simp

lemma reading_10_charging:
  "get_battery_status (sysfs_bat0 ''10'' ''Charging'') =
     \<lparr>percentage = 10, charging = 1, present = 1, status = ''Charging'', time_remaining = 0\<rparr>"
  by code_simp

lemma reading_5_charging:
  "get_battery_status (sysfs_bat0 ''5'' ''Charging'') =
     \<lparr>percentage = 5, charging = 1, present = 1, status = ''Charging'', time_remaining = 0\<rparr>"
  by code_simp

lemma reading_15_discharging:
  "get_battery_status (sysfs_bat0 ''15'' ''Discharging'') =
     \<lparr>percentage = 15, charging = 0, present = 1, status = ''Discharging'',
      time_remaining = 0\<rparr>"
  by code_simp

lemma reading_10_padded:
  "get_battery_status (sysfs_bat0 '' 10'' ''Discharging'') =
     \<lparr>percentage = 10, charging = 0, present = 1, status = ''Discharging'',
      time_remaining = 0\<rparr>"
  by code_simp

lemma reading_empty:
  "get_battery_status sysfs_empty =
     \<lparr>percentage = 0, charging = 0, present = 0, status = [], time_remaining = 0\<rparr>"
  by code_simp

lemmas concrete_defs =
  default_config_def init_default_config_def initial_state_def poll_def timeout_values

section \<open>The charging branch\<close>

text \<open>
  C2. When the battery is present and charging, whatever the percentage, the callback
  clears \<open>alert_active\<close>, destroys an open alert dialog, stores the reading's percentage
  and charging flag in \<open>last_percentage\<close> and \<open>last_charging_state\<close>, leaves the alert
  timer alone, and does nothing else: no notification, no alert dialog, no sleep, no
  suspend.
\<close>

theorem charging_branch:
  assumes "st = get_battery_status (sysfs_now env)"
    and "present st \<noteq> 0" and "charging st \<noteq> 0"
    and "check_battery_timer cfg env s = (s', tr)"
  shows "alert_active s' = 0 \<and> \<not> alert_dialog s'
       \<and> (alert_dialog s \<longrightarrow> DestroyDialog \<in> set tr)
       \<and> last_percentage s' = percentage st \<and> last_charging_state s' = charging st
       \<and> last_alert_time s' = last_alert_time s
       \<and> \<not> list_ex is_alert tr \<and> \<not> list_ex is_suspend tr \<and> Sleep 10 \<notin> set tr"
  using assms
  by (auto simp: check_battery_timer_def dismiss_alert_def Let_def update_tray_icon_quiet
           split: if_splits)

text \<open>
  At 5 percent and charging, with an alert dialog open: the dialog is destroyed and
  nothing is suspended, although 5 is below the critical level 10.
\<close>

theorem charging_branch_witness:
  "present (get_battery_status (sysfs_bat0 ''5'' ''Charging'')) \<noteq> 0
   \<and> charging (get_battery_status (sysfs_bat0 ''5'' ''Charging'')) \<noteq> 0
   \<and> percentage (get_battery_status (sysfs_bat0 ''5'' ''Charging'')) \<le> critical_level default_config
   \<and> (let r = check_battery_timer default_config
                 (poll (sysfs_bat0 ''5'' ''Charging'') 1000 sysfs_empty)
                 (initial_state\<lparr>alert_active := 1, alert_dialog := True\<rparr>)
      in alert_active (fst r) = 0 \<and> \<not> alert_dialog (fst r) \<and> DestroyDialog \<in> set (snd r)
         \<and> last_percentage (fst r) = 5 \<and> last_charging_state (fst r) = 1
         \<and> \<not> list_ex is_alert (snd r) \<and> \<not> list_ex is_suspend (snd r)
         \<and> Sleep 10 \<notin> set (snd r))"
proof -
  let ?env = "poll (sysfs_bat0 ''5'' ''Charging'') 1000 sysfs_empty"
  let ?s = "initial_state\<lparr>alert_active := 1, alert_dialog := True\<rparr>"
  have st: "get_battery_status (sysfs_now ?env) = get_battery_status (sysfs_bat0 ''5'' ''Charging'')"
    by (simp add: poll_def)
  have p: "present (get_battery_status (sysfs_now ?env)) \<noteq> 0"
    and c: "charging (get_battery_status (sysfs_now ?env)) \<noteq> 0"
    by (simp_all add: st reading_5_charging)
  from charging_branch [OF refl p c prod.collapse [symmetric], of default_config ?s]
  show ?thesis
    by (simp add: st reading_5_charging concrete_defs Let_def)
qed

section \<open>The critical branch\<close>

text \<open>
  C1 (amended). When the battery is present, not charging, at or below the critical
  level, and more than 30 seconds have passed since \<open>last_alert_time\<close>, the callback
  shows the critical notification, shows the alert dialog exactly when
  \<open>impossible_alerts\<close> is set, and sets \<open>last_alert_time\<close> to the time of the call. It
  sleeps 10 seconds exactly when \<open>force_suspend\<close> is set, and calls
  \<open>force_system_suspend\<close> exactly when, in addition, the reading taken after the sleep
  is at or below the critical level and not charging; so a reading that shows the
  charger plugged in gives no suspend. The trace has these events in this order.
\<close>

theorem critical_branch:
  assumes "st = get_battery_status (sysfs_now env)"
    and "present st \<noteq> 0" and "charging st = 0"
    and "percentage st \<le> critical_level cfg"
    and "clock env - last_alert_time s > 30"
    and "fc = get_battery_status (sysfs_later env)"
    and "check_battery_timer cfg env s = (s', tr)"
  shows "Notify (CriticalBattery (percentage st)) URGENCY_CRITICAL (int_mul (alert_timeout cfg) 1000)
           \<in> set tr
       \<and> (AlertDialog (CriticalBattery (percentage st)) \<in> set tr \<longleftrightarrow> impossible_alerts cfg \<noteq> 0)
       \<and> (Sleep 10 \<in> set tr \<longleftrightarrow> force_suspend cfg \<noteq> 0)
       \<and> (ForceSuspend \<in> set tr \<longleftrightarrow>
            force_suspend cfg \<noteq> 0 \<and> percentage fc \<le> critical_level cfg \<and> charging fc = 0)
       \<and> last_alert_time s' = clock env
       \<and> tr = update_tray_icon cfg s st
              @ show_notification cfg (CriticalBattery (percentage st)) ''critical''
              @ snd (show_impossible_alert cfg s (CriticalBattery (percentage st)))
              @ (if force_suspend cfg \<noteq> 0
                 then Sleep 10
                      # (if percentage fc \<le> critical_level cfg \<and> charging fc = 0
                         then force_system_suspend cfg (system_rc env) else [])
                 else [])"
  using assms
  by (auto simp: check_battery_timer_def show_impossible_alert_def show_notification_def
                 grace_sequence_def force_system_suspend_starts
                 Let_def update_tray_icon_def split: if_splits
           dest!: force_system_suspend_events)

text \<open>
  With the default levels 10 and 20 and the initial state, a reading of 10 percent, not
  charging, at time 31: the notification and the alert dialog are shown; the suspend
  follows when the second reading is again 10 percent and not charging, and does not
  when the second reading is charging.
\<close>

theorem critical_branch_witness:
  "critical_level default_config = 10 \<and> warning_level default_config = 20
   \<and> clock (poll (sysfs_bat0 ''10'' ''Discharging'') 31 (sysfs_bat0 ''10'' ''Discharging''))
       - last_alert_time initial_state > 30
   \<and> (let r = check_battery_timer default_config
                 (poll (sysfs_bat0 ''10'' ''Discharging'') 31 (sysfs_bat0 ''10'' ''Discharging''))
                 initial_state
      in Notify (CriticalBattery 10) URGENCY_CRITICAL 30000 \<in> set (snd r)
         \<and> AlertDialog (CriticalBattery 10) \<in> set (snd r)
         \<and> Sleep 10 \<in> set (snd r) \<and> ForceSuspend \<in> set (snd r)
         \<and> last_alert_time (fst r) = 31)
   \<and> (let r = check_battery_timer default_config
                 (poll (sysfs_bat0 ''10'' ''Discharging'') 31 (sysfs_bat0 ''10'' ''Charging''))
                 initial_state
      in Notify (CriticalBattery 10) URGENCY_CRITICAL 30000 \<in> set (snd r)
         \<and> AlertDialog (CriticalBattery 10) \<in> set (snd r)
         \<and> Sleep 10 \<in> set (snd r) \<and> ForceSuspend \<notin> set (snd r)
         \<and> last_alert_time (fst r) = 31)"
proof -
  let ?now = "sysfs_bat0 ''10'' ''Discharging''"
  let ?e1 = "poll ?now 31 (sysfs_bat0 ''10'' ''Discharging'')"
  let ?e2 = "poll ?now 31 (sysfs_bat0 ''10'' ''Charging'')"
  have st: "get_battery_status (sysfs_now ?e1) = get_battery_status ?now"
    "get_battery_status (sysfs_now ?e2) = get_battery_status ?now"
    "get_battery_status (sysfs_later ?e1) = get_battery_status (sysfs_bat0 ''10'' ''Discharging'')"
    "get_battery_status (sysfs_later ?e2) = get_battery_status (sysfs_bat0 ''10'' ''Charging'')"
    by (simp_all add: poll_def)
  have h1: "present (get_battery_status (sysfs_now ?e1)) \<noteq> 0"
    "charging (get_battery_status (sysfs_now ?e1)) = 0"
    "percentage (get_battery_status (sysfs_now ?e1)) \<le> critical_level default_config"
    "clock ?e1 - last_alert_time initial_state > 30"
    by (simp_all add: st reading_10_discharging concrete_defs)
  have h2: "present (get_battery_status (sysfs_now ?e2)) \<noteq> 0"
    "charging (get_battery_status (sysfs_now ?e2)) = 0"
    "percentage (get_battery_status (sysfs_now ?e2)) \<le> critical_level default_config"
    "clock ?e2 - last_alert_time initial_state > 30"
    by (simp_all add: st reading_10_discharging concrete_defs)
  note a = critical_branch [OF refl h1 refl prod.collapse [symmetric]]
  note b = critical_branch [OF refl h2 refl prod.collapse [symmetric]]
  have "Notify (CriticalBattery 10) URGENCY_CRITICAL 30000
          \<in> set (snd (check_battery_timer default_config ?e1 initial_state))"
    "AlertDialog (CriticalBattery 10) \<in> set (snd (check_battery_timer default_config ?e1 initial_state))"
    "Sleep 10 \<in> set (snd (check_battery_timer default_config ?e1 initial_state))"
    "ForceSuspend \<in> set (snd (check_battery_timer default_config ?e1 initial_state))"
    "last_alert_time (fst (check_battery_timer default_config ?e1 initial_state)) = 31"
    using a [THEN conjunct1] a [THEN conjunct2, THEN conjunct1]
      a [THEN conjunct2, THEN conjunct2, THEN conjunct1]
      a [THEN conjunct2, THEN conjunct2, THEN conjunct2, THEN conjunct1]
      a [THEN conjunct2, THEN conjunct2, THEN conjunct2, THEN conjunct2, THEN conjunct1]
    by (simp_all add: reading_10_discharging concrete_defs)
  moreover
  have "Notify (CriticalBattery 10) URGENCY_CRITICAL 30000
          \<in> set (snd (check_battery_timer default_config ?e2 initial_state))"
    "AlertDialog (CriticalBattery 10) \<in> set (snd (check_battery_timer default_config ?e2 initial_state))"
    "Sleep 10 \<in> set (snd (check_battery_timer default_config ?e2 initial_state))"
    "ForceSuspend \<notin> set (snd (check_battery_timer default_config ?e2 initial_state))"
    "last_alert_time (fst (check_battery_timer default_config ?e2 initial_state)) = 31"
    using b [THEN conjunct1] b [THEN conjunct2, THEN conjunct1]
      b [THEN conjunct2, THEN conjunct2, THEN conjunct1]
      b [THEN conjunct2, THEN conjunct2, THEN conjunct2, THEN conjunct1]
      b [THEN conjunct2, THEN conjunct2, THEN conjunct2, THEN conjunct2, THEN conjunct1]
    by (simp_all add: reading_10_discharging reading_10_charging concrete_defs)
  ultimately show ?thesis
    using h1(4) by (simp add: Let_def default_config_def init_default_config_def)
qed

text \<open>
  C1 as the specification words its example: at time 0 with the initial state, whose
  \<open>last_alert_time\<close> is 0, the guard \<open>0 - 0 > 30\<close> fails, and the callback only
  refreshes the tray icon.
\<close>

theorem critical_at_time_zero_counterexample:
  "critical_level default_config = 10 \<and> warning_level default_config = 20
   \<and> percentage (get_battery_status (sysfs_bat0 ''10'' ''Discharging'')) = 10
   \<and> charging (get_battery_status (sysfs_bat0 ''10'' ''Discharging'')) = 0
   \<and> snd (check_battery_timer default_config
             (poll (sysfs_bat0 ''10'' ''Discharging'') 0 (sysfs_bat0 ''10'' ''Discharging''))
             initial_state)
       = [TrayIcon ''battery-caution'' (CriticalTip 10)]"
  by (simp add: check_battery_timer_def reading_10_discharging concrete_defs
                update_tray_icon_def Let_def)

text \<open>
  C3. In the critical band (present, not charging, at or below the critical level) with
  \<open>force_suspend\<close> off, the callback never calls \<open>force_system_suspend\<close>, runs no
  suspend command and does not sleep: after the tray icon refresh, the trace holds
  just what \<open>show_notification\<close> and \<open>show_impossible_alert\<close> emit, and that only when
  the 30 second guard lets them.
\<close>

theorem critical_without_force_suspend:
  assumes "st = get_battery_status (sysfs_now env)"
    and "present st \<noteq> 0" and "charging st = 0"
    and "percentage st \<le> critical_level cfg"
    and "force_suspend cfg = 0"
    and "check_battery_timer cfg env s = (s', tr)"
  shows "\<not> list_ex is_suspend tr \<and> Sleep 10 \<notin> set tr
       \<and> tr = update_tray_icon cfg s st
              @ (if clock env - last_alert_time s > 30
                 then show_notification cfg (CriticalBattery (percentage st)) ''critical''
                      @ snd (show_impossible_alert cfg s (CriticalBattery (percentage st)))
                 else [])"
  using assms
  by (auto simp: check_battery_timer_def show_impossible_alert_def show_notification_def
                 Let_def update_tray_icon_def split: if_splits)

text \<open>
  The defaults with \<open>force_suspend\<close> set to 0, 10 percent and not charging at time 31:
  the trace is the icon refresh, the notification and the alert dialog. With
  \<open>alert_timeout\<close> set to 3000000 as well, the timeout handed to libnotify is the
  wrapped product -1294967296.
\<close>

theorem critical_without_force_suspend_witness:
  "force_suspend (default_config\<lparr>force_suspend := 0\<rparr>) = 0
   \<and> percentage (get_battery_status (sysfs_bat0 ''10'' ''Discharging''))
       \<le> critical_level (default_config\<lparr>force_suspend := 0\<rparr>)
   \<and> (let r = check_battery_timer (default_config\<lparr>force_suspend := 0\<rparr>)
                 (poll (sysfs_bat0 ''10'' ''Discharging'') 31 (sysfs_bat0 ''10'' ''Discharging''))
                 initial_state
      in \<not> list_ex is_suspend (snd r) \<and> Sleep 10 \<notin> set (snd r)
         \<and> snd r = [TrayIcon ''battery-caution'' (CriticalTip 10),
                     Notify (CriticalBattery 10) URGENCY_CRITICAL 30000,
                     AlertDialog (CriticalBattery 10)])
   \<and> (let r = check_battery_timer
                 (default_config\<lparr>force_suspend := 0, alert_timeout := 3000000\<rparr>)
                 (poll (sysfs_bat0 ''10'' ''Discharging'') 31 (sysfs_bat0 ''10'' ''Discharging''))
                 initial_state
      in \<not> list_ex is_suspend (snd r) \<and> Sleep 10 \<notin> set (snd r)
         \<and> snd r = [TrayIcon ''battery-caution'' (CriticalTip 10),
                     Notify (CriticalBattery 10) URGENCY_CRITICAL (- 1294967296),
                     AlertDialog (CriticalBattery 10)])"
proof -
  let ?cfg = "default_config\<lparr>force_suspend := 0\<rparr>"
  let ?cfg' = "default_config\<lparr>force_suspend := 0, alert_timeout := 3000000\<rparr>"
  let ?env = "poll (sysfs_bat0 ''10'' ''Discharging'') 31 (sysfs_bat0 ''10'' ''Discharging'')"
  have st: "get_battery_status (sysfs_now ?env) = get_battery_status (sysfs_bat0 ''10'' ''Discharging'')"
    by (simp add: poll_def)
  have h: "present (get_battery_status (sysfs_now ?env)) \<noteq> 0"
    "charging (get_battery_status (sysfs_now ?env)) = 0"
    "percentage (get_battery_status (sysfs_now ?env)) \<le> critical_level ?cfg"
    "force_suspend ?cfg = 0"
    by (simp_all add: st reading_10_discharging concrete_defs)
  have h': "present (get_battery_status (sysfs_now ?env)) \<noteq> 0"
    "charging (get_battery_status (sysfs_now ?env)) = 0"
    "percentage (get_battery_status (sysfs_now ?env)) \<le> critical_level ?cfg'"
    "force_suspend ?cfg' = 0"
    by (simp_all add: st reading_10_discharging concrete_defs)
  note a = critical_without_force_suspend
             [OF refl h prod.collapse [symmetric], of initial_state]
  note b = critical_without_force_suspend
             [OF refl h' prod.collapse [symmetric], of initial_state]
  have "\<not> list_ex is_suspend (snd (check_battery_timer ?cfg ?env initial_state))"
    "Sleep 10 \<notin> set (snd (check_battery_timer ?cfg ?env initial_state))"
    "snd (check_battery_timer ?cfg ?env initial_state)
       = [TrayIcon ''battery-caution'' (CriticalTip 10),
          Notify (CriticalBattery 10) URGENCY_CRITICAL 30000,
          AlertDialog (CriticalBattery 10)]"
    using a [THEN conjunct1] a [THEN conjunct2, THEN conjunct1]
      a [THEN conjunct2, THEN conjunct2]
    by (simp_all add: reading_10_discharging concrete_defs update_tray_icon_def
                      show_notification_def show_impossible_alert_def)
  moreover
  have "\<not> list_ex is_suspend (snd (check_battery_timer ?cfg' ?env initial_state))"
    "Sleep 10 \<notin> set (snd (check_battery_timer ?cfg' ?env initial_state))"
    "snd (check_battery_timer ?cfg' ?env initial_state)
       = [TrayIcon ''battery-caution'' (CriticalTip 10),
          Notify (CriticalBattery 10) URGENCY_CRITICAL (- 1294967296),
          AlertDialog (CriticalBattery 10)]"
    using b [THEN conjunct1] b [THEN conjunct2, THEN conjunct1]
      b [THEN conjunct2, THEN conjunct2]
    by (simp_all add: reading_10_discharging concrete_defs update_tray_icon_def
                      show_notification_def show_impossible_alert_def)
  ultimately show ?thesis
    using h(3,4) by (simp add: Let_def st)
qed

text \<open>
  C10. When the reading taken after the 10 second sleep finds no battery (for instance
  because no file under \<open>/sys/class/power_supply\<close> can be read), it is the zero-initialised
  status: percentage 0 and charging 0. The callback tests only these two fields, not
  \<open>present\<close>; with a critical level that is not negative the test passes and the suspend
  is carried out: \<open>force_system_suspend\<close> is called and, for a suspend method of the
  table, runs the configured command and after it the fallbacks, up to the first
  command that succeeds.
\<close>

theorem absent_resample_suspends:
  assumes "st = get_battery_status (sysfs_now env)"
    and "present st \<noteq> 0" and "charging st = 0"
    and "percentage st \<le> critical_level cfg"
    and "clock env - last_alert_time s > 30"
    and "force_suspend cfg \<noteq> 0"
    and "0 \<le> critical_level cfg"
    and "fc = get_battery_status (sysfs_later env)"
    and "present fc = 0"
    and "check_battery_timer cfg env s = (s', tr)"
  shows "percentage fc = 0 \<and> charging fc = 0 \<and> ForceSuspend \<in> set tr
       \<and> (0 \<le> suspend_method cfg \<and> suspend_method cfg < 4 \<longrightarrow>
            System (suspend_commands ! nat (suspend_method cfg))
              (system_rc env (suspend_commands ! nat (suspend_method cfg))) \<in> set tr
          \<and> attempts tr
              = spec_attempt_in_order (system_rc env)
                  (spec_fallback_chain suspend_commands (nat (suspend_method cfg))))"
proof -
  from assms(8,9) have fc: "fc = status_zero"
    by (simp add: get_battery_status_absent)
  then have z: "percentage fc = 0" "charging fc = 0"
    by (simp_all add: status_zero_def)
  with assms(1-8,10)
  have tr: "tr = update_tray_icon cfg s st
              @ show_notification cfg (CriticalBattery (percentage st)) ''critical''
              @ snd (show_impossible_alert cfg s (CriticalBattery (percentage st)))
              @ Sleep 10 # force_system_suspend cfg (system_rc env)"
    by (auto simp: check_battery_timer_def grace_sequence_def Let_def
             split: if_splits prod.splits)
  then have f: "ForceSuspend \<in> set tr"
    by (simp add: force_system_suspend_starts)
  have a: "attempts tr = attempts (force_system_suspend cfg (system_rc env))"
    by (simp add: tr attempts_append attempts_presentation)
  have "System (suspend_commands ! nat (suspend_method cfg))
          (system_rc env (suspend_commands ! nat (suspend_method cfg))) \<in> set tr
      \<and> attempts tr
          = spec_attempt_in_order (system_rc env)
              (spec_fallback_chain suspend_commands (nat (suspend_method cfg)))"
    if "0 \<le> suspend_method cfg \<and> suspend_method cfg < 4"
    using that configured_command_runs [of cfg "system_rc env"]
    by (simp add: a attempts_force_system_suspend) (simp add: tr)
  with z f show ?thesis by blast
qed

text \<open>
  10 percent and not charging at time 31, an unreadable tree after the sleep, the
  default method 0 and every command failing: the suspend is forced, and
  \<open>systemctl suspend\<close> and the three fallbacks are run.
\<close>

theorem absent_resample_suspends_witness:
  "present (get_battery_status sysfs_empty) = 0
   \<and> force_suspend default_config \<noteq> 0 \<and> 0 \<le> critical_level default_config
   \<and> 0 \<le> suspend_method default_config \<and> suspend_method default_config < 4
   \<and> percentage (get_battery_status sysfs_empty) = 0
   \<and> charging (get_battery_status sysfs_empty) = 0
   \<and> (let r = check_battery_timer default_config
                 (poll (sysfs_bat0 ''10'' ''Discharging'') 31 sysfs_empty) initial_state
      in ForceSuspend \<in> set (snd r)
         \<and> System ''systemctl suspend'' 1 \<in> set (snd r)
         \<and> attempts (snd r)
             = [(''systemctl suspend'', 1), (''pm-suspend'', 1), (suspend_commands ! 2, 1),
                (''echo mem > /sys/power/state'', 1)])"
proof -
  let ?env = "poll (sysfs_bat0 ''10'' ''Discharging'') 31 sysfs_empty"
  let ?r = "check_battery_timer default_config ?env initial_state"
  have st: "get_battery_status (sysfs_now ?env) = get_battery_status (sysfs_bat0 ''10'' ''Discharging'')"
    "get_battery_status (sysfs_later ?env) = get_battery_status sysfs_empty"
    by (simp_all add: poll_def)
  have h: "present (get_battery_status (sysfs_now ?env)) \<noteq> 0"
    "charging (get_battery_status (sysfs_now ?env)) = 0"
    "percentage (get_battery_status (sysfs_now ?env)) \<le> critical_level default_config"
    "clock ?env - last_alert_time initial_state > 30"
    "force_suspend default_config \<noteq> 0"
    "0 \<le> critical_level default_config"
    by (simp_all add: st reading_10_discharging concrete_defs)
  have p: "present (get_battery_status (sysfs_later ?env)) = 0"
    by (simp add: st reading_empty)
  have m: "0 \<le> suspend_method default_config \<and> suspend_method default_config < 4"
    by (simp add: concrete_defs)
  have sys: "system_rc ?env = (\<lambda>c. 1)"
    by (simp add: poll_def)
  have cmd: "suspend_commands ! nat (suspend_method default_config) = ''systemctl suspend''"
    by (simp add: concrete_defs suspend_commands_def)
  have nat0: "nat (suspend_method default_config) = 0"
    by (simp add: concrete_defs)
  note a = absent_resample_suspends [OF refl h refl p prod.collapse [symmetric]]
  note b = a [THEN conjunct2, THEN conjunct2, THEN conjunct2, THEN mp, OF m]
  have "ForceSuspend \<in> set (snd ?r)"
    using a [THEN conjunct2, THEN conjunct2, THEN conjunct1] .
  moreover have "System ''systemctl suspend'' 1 \<in> set (snd ?r)"
    using b [THEN conjunct1] by (simp only: cmd sys)
  moreover have "attempts (snd ?r)
      = [(''systemctl suspend'', 1), (''pm-suspend'', 1), (suspend_commands ! 2, 1),
         (''echo mem > /sys/power/state'', 1)]"
    using b [THEN conjunct2] by (simp only: nat0 sys chain_0_all_fail_attempts)
  ultimately show ?thesis
    using h(5,6) p m a [THEN conjunct1] a [THEN conjunct2, THEN conjunct1]
    by (simp add: Let_def st)
qed

text \<open>
  C4. Two calls in the critical band, the second at most 30 seconds after the first,
  where the first call fired its alert or the second is still within 30 seconds of
  \<open>last_alert_time\<close>: the second call only refreshes the tray icon. It shows no
  notification and no alert dialog, does not sleep and does not suspend, and leaves
  \<open>last_alert_time\<close> as the first call left it.
\<close>

theorem critical_suppression:
  assumes "st1 = get_battery_status (sysfs_now env1)"
    and "present st1 \<noteq> 0" and "charging st1 = 0" and "percentage st1 \<le> critical_level cfg"
    and "st2 = get_battery_status (sysfs_now env2)"
    and "present st2 \<noteq> 0" and "charging st2 = 0" and "percentage st2 \<le> critical_level cfg"
    and "clock env2 - clock env1 \<le> 30"
    and "clock env1 - last_alert_time s0 > 30 \<or> clock env2 - last_alert_time s0 \<le> 30"
    and "check_battery_timer cfg env1 s0 = (s1, tr1)"
    and "check_battery_timer cfg env2 s1 = (s2, tr2)"
  shows "\<not> list_ex is_alert tr2 \<and> \<not> list_ex is_suspend tr2 \<and> Sleep 10 \<notin> set tr2
       \<and> tr2 = update_tray_icon cfg s1 st2
       \<and> last_alert_time s2 = last_alert_time s1"
proof -
  from assms(1-4,9-11) have "clock env2 - last_alert_time s1 \<le> 30"
    by (auto simp: check_battery_timer_def show_impossible_alert_def Let_def
             split: if_splits)
  with assms(5-8,12)
  have "tr2 = update_tray_icon cfg s1 st2 \<and> last_alert_time s2 = last_alert_time s1"
    by (auto simp: check_battery_timer_def Let_def split: if_splits)
  then show ?thesis by (simp add: update_tray_icon_quiet)
qed

text \<open>
  Calls at times 100 and 115 from the initial state: the first fires and sets
  \<open>last_alert_time\<close> to 100, the second shows no alert and does not suspend. Calls at
  times 0 and 15 from the initial state: the second shows no alert and does not suspend
  either.
\<close>

theorem critical_suppression_witness:
  "clock (poll (sysfs_bat0 ''10'' ''Discharging'') 100 (sysfs_bat0 ''10'' ''Discharging''))
     - last_alert_time initial_state > 30
   \<and> (let e1 = poll (sysfs_bat0 ''10'' ''Discharging'') 100 (sysfs_bat0 ''10'' ''Discharging'');
          e2 = poll (sysfs_bat0 ''10'' ''Discharging'') 115 (sysfs_bat0 ''10'' ''Discharging'');
          r1 = check_battery_timer default_config e1 initial_state;
          r2 = check_battery_timer default_config e2 (fst r1)
      in last_alert_time (fst r1) = 100
         \<and> \<not> list_ex is_alert (snd r2) \<and> \<not> list_ex is_suspend (snd r2)
         \<and> Sleep 10 \<notin> set (snd r2)
         \<and> last_alert_time (fst r2) = 100)
   \<and> clock (poll (sysfs_bat0 ''10'' ''Discharging'') 15 (sysfs_bat0 ''10'' ''Discharging''))
       - last_alert_time initial_state \<le> 30
   \<and> (let e1 = poll (sysfs_bat0 ''10'' ''Discharging'') 0 (sysfs_bat0 ''10'' ''Discharging'');
          e2 = poll (sysfs_bat0 ''10'' ''Discharging'') 15 (sysfs_bat0 ''10'' ''Discharging'');
          r1 = check_battery_timer default_config e1 initial_state;
          r2 = check_battery_timer default_config e2 (fst r1)
      in \<not> list_ex is_alert (snd r2) \<and> \<not> list_ex is_suspend (snd r2)
         \<and> Sleep 10 \<notin> set (snd r2))"
proof -
  let ?fs = "sysfs_bat0 ''10'' ''Discharging''"
  let ?e1 = "poll ?fs 100 ?fs"
  let ?e2 = "poll ?fs 115 ?fs"
  let ?r1 = "check_battery_timer default_config ?e1 initial_state"
  let ?r2 = "check_battery_timer default_config ?e2 (fst ?r1)"
  let ?e3 = "poll ?fs 0 ?fs"
  let ?e4 = "poll ?fs 15 ?fs"
  let ?r3 = "check_battery_timer default_config ?e3 initial_state"
  let ?r4 = "check_battery_timer default_config ?e4 (fst ?r3)"
  have h: "present (get_battery_status (sysfs_now (poll ?fs t ?fs))) \<noteq> 0"
    "charging (get_battery_status (sysfs_now (poll ?fs t ?fs))) = 0"
    "percentage (get_battery_status (sysfs_now (poll ?fs t ?fs))) \<le> critical_level default_config"
    for t
    by (simp_all add: reading_10_discharging concrete_defs)
  have t: "clock ?e2 - clock ?e1 \<le> 30" "clock ?e4 - clock ?e3 \<le> 30"
    by (simp_all add: poll_def)
  have g: "clock ?e1 - last_alert_time initial_state > 30"
    by (simp add: concrete_defs)
  then have d: "clock ?e1 - last_alert_time initial_state > 30
              \<or> clock ?e2 - last_alert_time initial_state \<le> 30" ..
  have g': "clock ?e4 - last_alert_time initial_state \<le> 30"
    by (simp add: concrete_defs)
  then have d': "clock ?e3 - last_alert_time initial_state > 30
               \<or> clock ?e4 - last_alert_time initial_state \<le> 30" ..
  note a = critical_suppression
             [OF refl h refl h t(1) d prod.collapse [symmetric] prod.collapse [symmetric]]
  note b = critical_suppression
             [OF refl h refl h t(2) d' prod.collapse [symmetric] prod.collapse [symmetric]]
  have f: "last_alert_time (fst ?r1) = 100"
    using critical_alert_sets_timer [OF h g] by (simp add: poll_def)
  have "\<not> list_ex is_alert (snd ?r2)" "\<not> list_ex is_suspend (snd ?r2)"
    "Sleep 10 \<notin> set (snd ?r2)" "last_alert_time (fst ?r2) = 100"
    using a [THEN conjunct1] a [THEN conjunct2, THEN conjunct1]
      a [THEN conjunct2, THEN conjunct2, THEN conjunct1]
      a [THEN conjunct2, THEN conjunct2, THEN conjunct2, THEN conjunct2] f
    by simp_all
  moreover
  have "\<not> list_ex is_alert (snd ?r4)" "\<not> list_ex is_suspend (snd ?r4)"
    "Sleep 10 \<notin> set (snd ?r4)"
    using b [THEN conjunct1] b [THEN conjunct2, THEN conjunct1]
      b [THEN conjunct2, THEN conjunct2, THEN conjunct1]
    by simp_all
  ultimately show ?thesis
    using f g g' by (simp add: Let_def)
qed

section \<open>The warning branch\<close>

text \<open>
  C5. In the warning band (present, not charging, above the critical level and at or
  below the warning level): when at most 120 seconds have passed since
  \<open>last_alert_time\<close>, the callback shows no notification and no alert dialog and leaves
  \<open>last_alert_time\<close> unchanged; when more than 120 seconds have passed, it shows the
  low-battery notification, shows the alert dialog exactly when \<open>impossible_alerts\<close> is
  set, and sets \<open>last_alert_time\<close> to the time of the call. In both cases it neither
  sleeps nor suspends.
\<close>

theorem warning_branch:
  assumes "st = get_battery_status (sysfs_now env)"
    and "present st \<noteq> 0" and "charging st = 0"
    and "critical_level cfg < percentage st" and "percentage st \<le> warning_level cfg"
    and "check_battery_timer cfg env s = (s', tr)"
  shows "(clock env - last_alert_time s \<le> 120 \<longrightarrow>
            \<not> list_ex is_alert tr \<and> last_alert_time s' = last_alert_time s)
       \<and> (clock env - last_alert_time s > 120 \<longrightarrow>
            Notify (LowBattery (percentage st) (critical_level cfg)) URGENCY_CRITICAL
              (int_mul (alert_timeout cfg) 1000) \<in> set tr
          \<and> (AlertDialog (LowBattery (percentage st) (critical_level cfg)) \<in> set tr
               \<longleftrightarrow> impossible_alerts cfg \<noteq> 0)
          \<and> last_alert_time s' = clock env)
       \<and> \<not> list_ex is_suspend tr \<and> Sleep 10 \<notin> set tr"
  using assms
  by (auto simp: check_battery_timer_def show_impossible_alert_def show_notification_def
                 Let_def update_tray_icon_def split: if_splits)

text \<open>
  15 percent and not charging, from the initial state: nothing is shown at time 100;
  the notification and the dialog are shown at time 121.
\<close>

theorem warning_branch_witness:
  "critical_level default_config
     < percentage (get_battery_status (sysfs_bat0 ''15'' ''Discharging''))
   \<and> percentage (get_battery_status (sysfs_bat0 ''15'' ''Discharging''))
       \<le> warning_level default_config
   \<and> (let r = check_battery_timer default_config
                 (poll (sysfs_bat0 ''15'' ''Discharging'') 100 sysfs_empty) initial_state
      in \<not> list_ex is_alert (snd r) \<and> last_alert_time (fst r) = 0
         \<and> \<not> list_ex is_suspend (snd r) \<and> Sleep 10 \<notin> set (snd r))
   \<and> (let r = check_battery_timer default_config
                 (poll (sysfs_bat0 ''15'' ''Discharging'') 121 sysfs_empty) initial_state
      in Notify (LowBattery 15 10) URGENCY_CRITICAL 30000 \<in> set (snd r)
         \<and> AlertDialog (LowBattery 15 10) \<in> set (snd r)
         \<and> last_alert_time (fst r) = 121
         \<and> \<not> list_ex is_suspend (snd r) \<and> Sleep 10 \<notin> set (snd r))"
proof -
  let ?fs = "sysfs_bat0 ''15'' ''Discharging''"
  let ?r1 = "check_battery_timer default_config (poll ?fs 100 sysfs_empty) initial_state"
  let ?r2 = "check_battery_timer default_config (poll ?fs 121 sysfs_empty) initial_state"
  have h: "present (get_battery_status (sysfs_now (poll ?fs t sysfs_empty))) \<noteq> 0"
    "charging (get_battery_status (sysfs_now (poll ?fs t sysfs_empty))) = 0"
    "critical_level default_config
       < percentage (get_battery_status (sysfs_now (poll ?fs t sysfs_empty)))"
    "percentage (get_battery_status (sysfs_now (poll ?fs t sysfs_empty)))
       \<le> warning_level default_config"
    for t
    by (simp_all add: reading_15_discharging concrete_defs)
  note a = warning_branch [OF refl h prod.collapse [symmetric], of 100 initial_state]
  note b = warning_branch [OF refl h prod.collapse [symmetric], of 121 initial_state]
  have "\<not> list_ex is_alert (snd ?r1)" "last_alert_time (fst ?r1) = 0"
    "\<not> list_ex is_suspend (snd ?r1)" "Sleep 10 \<notin> set (snd ?r1)"
    using a [THEN conjunct1] a [THEN conjunct2, THEN conjunct2]
    by (simp_all add: concrete_defs)
  moreover
  have "Notify (LowBattery 15 10) URGENCY_CRITICAL 30000 \<in> set (snd ?r2)"
    "AlertDialog (LowBattery 15 10) \<in> set (snd ?r2)"
    "last_alert_time (fst ?r2) = 121"
    "\<not> list_ex is_suspend (snd ?r2)" "Sleep 10 \<notin> set (snd ?r2)"
    using b [THEN conjunct2, THEN conjunct1] b [THEN conjunct2, THEN conjunct2]
    by (simp_all add: reading_15_discharging concrete_defs)
  ultimately show ?thesis
    using h(3,4) [of 0] by (simp add: Let_def poll_def)
qed

section \<open>The stored reading\<close>

text \<open>
  C7 (amended). Every call that finds a battery, the charging branch included, stores
  the reading's percentage and charging flag in \<open>last_percentage\<close> and
  \<open>last_charging_state\<close>. A call that finds no battery returns before that and leaves
  every module-level variable as it was.
\<close>

theorem present_updates_last:
  assumes "st = get_battery_status (sysfs_now env)"
    and "check_battery_timer cfg env s = (s', tr)"
  shows "(present st \<noteq> 0 \<longrightarrow>
            last_percentage s' = percentage st \<and> last_charging_state s' = charging st)
       \<and> (present st = 0 \<longrightarrow> s' = s)"
  using assms
  by (auto simp: check_battery_timer_def show_impossible_alert_def dismiss_alert_def
                 Let_def split: if_splits prod.splits)

text \<open>
  A charging battery at 5 percent is stored as 5 and 1; with no battery the initial
  state comes back unchanged.
\<close>

theorem present_updates_last_witness:
  "present (get_battery_status (sysfs_bat0 ''5'' ''Charging'')) \<noteq> 0
   \<and> (let r = check_battery_timer default_config
                 (poll (sysfs_bat0 ''5'' ''Charging'') 1000 sysfs_empty) initial_state
      in last_percentage (fst r) = 5 \<and> last_charging_state (fst r) = 1)
   \<and> present (get_battery_status sysfs_empty) = 0
   \<and> fst (check_battery_timer default_config (poll sysfs_empty 1000 sysfs_empty) initial_state)
       = initial_state"
proof -
  let ?e1 = "poll (sysfs_bat0 ''5'' ''Charging'') 1000 sysfs_empty"
  let ?e2 = "poll sysfs_empty 1000 sysfs_empty"
  have p1: "present (get_battery_status (sysfs_now ?e1)) \<noteq> 0"
    by (simp add: poll_def reading_5_charging)
  have p2: "present (get_battery_status (sysfs_now ?e2)) = 0"
    by (simp add: poll_def reading_empty)
  note a = present_updates_last
             [where env = ?e1 and cfg = default_config and s = initial_state,
              OF refl prod.collapse [symmetric]]
  note b = present_updates_last
             [where env = ?e2 and cfg = default_config and s = initial_state,
              OF refl prod.collapse [symmetric]]
  have "last_percentage (fst (check_battery_timer default_config ?e1 initial_state)) = 5"
    "last_charging_state (fst (check_battery_timer default_config ?e1 initial_state)) = 1"
    using a [THEN conjunct1, THEN mp, OF p1] by (simp_all add: poll_def reading_5_charging)
  moreover
  have "fst (check_battery_timer default_config ?e2 initial_state) = initial_state"
    using b [THEN conjunct2, THEN mp, OF p2] .
  ultimately show ?thesis
    using p1 p2 by (simp add: Let_def poll_def)
qed

text \<open>
  C7 as the specification words it: with no battery the reading is percentage 0,
  charging 0, and the initial state keeps its \<open>last_percentage\<close> and
  \<open>last_charging_state\<close> of -1.
\<close>

theorem absent_keeps_last_counterexample:
  "present (get_battery_status sysfs_empty) = 0
   \<and> percentage (get_battery_status sysfs_empty) = 0
   \<and> charging (get_battery_status sysfs_empty) = 0
   \<and> last_percentage (fst (check_battery_timer default_config
                              (poll sysfs_empty 1000 sysfs_empty) initial_state)) = - 1
   \<and> last_charging_state (fst (check_battery_timer default_config
                                  (poll sysfs_empty 1000 sysfs_empty) initial_state)) = - 1"
  by (simp add: check_battery_timer_def reading_empty poll_def initial_state_def Let_def)

section \<open>Determinism\<close>

text \<open>
  C9. Two calls with the same configuration and the same module-level variables, whose
  environments give the same reading, the same time and, when the reading is in the
  critical band, the same reading after the sleep, leave the same state and the same
  sequence of events other than the suspend commands. When the suspend commands return
  the same values in both environments, the two calls agree in everything.
\<close>

theorem check_battery_timer_deterministic:
  assumes "get_battery_status (sysfs_now env1) = get_battery_status (sysfs_now env2)"
    and "clock env1 = clock env2"
    and "present (get_battery_status (sysfs_now env1)) \<noteq> 0
         \<and> charging (get_battery_status (sysfs_now env1)) = 0
         \<and> percentage (get_battery_status (sysfs_now env1)) \<le> critical_level cfg
         \<longrightarrow> get_battery_status (sysfs_later env1) = get_battery_status (sysfs_later env2)"
  shows "fst (check_battery_timer cfg env1 s) = fst (check_battery_timer cfg env2 s)
       \<and> filter (\<lambda>e. \<not> is_system e) (snd (check_battery_timer cfg env1 s))
         = filter (\<lambda>e. \<not> is_system e) (snd (check_battery_timer cfg env2 s))
       \<and> ((\<forall>c \<in> set suspend_commands. system_rc env1 c = system_rc env2 c) \<longrightarrow>
            check_battery_timer cfg env1 s = check_battery_timer cfg env2 s)"
proof -
  have cong: "grace_sequence cfg env1 = grace_sequence cfg env2"
    if "get_battery_status (sysfs_later env1) = get_battery_status (sysfs_later env2)"
      and "\<forall>c \<in> set suspend_commands. system_rc env1 c = system_rc env2 c"
    using that force_system_suspend_cong [of "system_rc env1" "system_rc env2" cfg]
    by (simp add: grace_sequence_def Let_def)
  have filt: "filter (\<lambda>e. \<not> is_system e) (grace_sequence cfg env1)
            = filter (\<lambda>e. \<not> is_system e) (grace_sequence cfg env2)"
    if "get_battery_status (sysfs_later env1) = get_battery_status (sysfs_later env2)"
    using that by (simp add: grace_sequence_def Let_def force_system_suspend_engine_events)
  show ?thesis
    using assms cong filt
    by (auto simp: check_battery_timer_def Let_def split: prod.splits)
qed

text \<open>
  Two trees that differ in the bytes of the \<open>capacity\<close> file and give the same reading,
  10 percent and not charging, at time 31: the two calls return the same state and the
  same trace. When the suspend commands succeed in one environment and fail in the
  other, the states and the events other than the commands still agree.
\<close>

theorem check_battery_timer_deterministic_witness:
  "sysfs_bat0 ''10'' ''Discharging'' \<noteq> sysfs_bat0 '' 10'' ''Discharging''
   \<and> get_battery_status (sysfs_bat0 ''10'' ''Discharging'')
       = get_battery_status (sysfs_bat0 '' 10'' ''Discharging'')
   \<and> check_battery_timer default_config
         (poll (sysfs_bat0 ''10'' ''Discharging'') 31 (sysfs_bat0 ''10'' ''Discharging''))
         initial_state
       = check_battery_timer default_config
           (poll (sysfs_bat0 '' 10'' ''Discharging'') 31 (sysfs_bat0 '' 10'' ''Discharging''))
           initial_state
   \<and> fst (check_battery_timer default_config
             (poll (sysfs_bat0 ''10'' ''Discharging'') 31 (sysfs_bat0 ''10'' ''Discharging''))
             initial_state)
       = fst (check_battery_timer default_config
                ((poll (sysfs_bat0 '' 10'' ''Discharging'') 31 (sysfs_bat0 '' 10'' ''Discharging''))
                   \<lparr>system_rc := (\<lambda>c. 0)\<rparr>)
                initial_state)
   \<and> filter (\<lambda>e. \<not> is_system e)
         (snd (check_battery_timer default_config
                 (poll (sysfs_bat0 ''10'' ''Discharging'') 31 (sysfs_bat0 ''10'' ''Discharging''))
                 initial_state))
       = filter (\<lambda>e. \<not> is_system e)
           (snd (check_battery_timer default_config
                   ((poll (sysfs_bat0 '' 10'' ''Discharging'') 31
                       (sysfs_bat0 '' 10'' ''Discharging''))
                      \<lparr>system_rc := (\<lambda>c. 0)\<rparr>)
                   initial_state))"
proof -
  let ?a = "sysfs_bat0 ''10'' ''Discharging''"
  let ?b = "sysfs_bat0 '' 10'' ''Discharging''"
  let ?e1 = "poll ?a 31 ?a"
  let ?e2 = "poll ?b 31 ?b"
  let ?e3 = "?e2\<lparr>system_rc := (\<lambda>c. 0)\<rparr>"
  have "?a ''/sys/class/power_supply/BAT0/capacity''
      \<noteq> ?b ''/sys/class/power_supply/BAT0/capacity''"
    by (simp add: sysfs_bat0_def)
  then have ne: "?a \<noteq> ?b" by metis
  have eq: "get_battery_status ?a = get_battery_status ?b"
    by (simp add: reading_10_discharging reading_10_padded)
  have h2: "get_battery_status (sysfs_now ?e1) = get_battery_status (sysfs_now ?e2)"
    "clock ?e1 = clock ?e2"
    "present (get_battery_status (sysfs_now ?e1)) \<noteq> 0
     \<and> charging (get_battery_status (sysfs_now ?e1)) = 0
     \<and> percentage (get_battery_status (sysfs_now ?e1)) \<le> critical_level default_config
     \<longrightarrow> get_battery_status (sysfs_later ?e1) = get_battery_status (sysfs_later ?e2)"
    by (simp_all add: poll_def eq)
  have h3: "get_battery_status (sysfs_now ?e1) = get_battery_status (sysfs_now ?e3)"
    "clock ?e1 = clock ?e3"
    "present (get_battery_status (sysfs_now ?e1)) \<noteq> 0
     \<and> charging (get_battery_status (sysfs_now ?e1)) = 0
     \<and> percentage (get_battery_status (sysfs_now ?e1)) \<le> critical_level default_config
     \<longrightarrow> get_battery_status (sysfs_later ?e1) = get_battery_status (sysfs_later ?e3)"
    by (simp_all add: poll_def eq)
  have rc: "\<forall>c \<in> set suspend_commands. system_rc ?e1 c = system_rc ?e2 c"
    by (simp add: poll_def)
  note a = check_battery_timer_deterministic [OF h2, of initial_state]
  note b = check_battery_timer_deterministic [OF h3, of initial_state]
  from ne eq a [THEN conjunct2, THEN conjunct2, THEN mp, OF rc]
    b [THEN conjunct1] b [THEN conjunct2, THEN conjunct1]
  show ?thesis by (intro conjI)
qed

section \<open>The suspend fallback chain\<close>



section \<open>Loading the configuration\<close>

text \<open>
  C8 (amended). \<open>load_config\<close> never fails. A key that no line of the file assigns
  keeps the value the configuration had before the load, which is the default when
  \<open>init_default_config\<close> ran first; so does every key when the file cannot be opened. A
  numeric key that the file assigns takes \<open>atoi\<close> of the value of the last line that
  assigns it, with no range check: a value out of range is kept as written, and a value
  that is not a number gives 0. An icon key takes the value of the last line that
  assigns it. The path of the file is not changed.
\<close>

theorem load_config_fields:
  "warning_level (load_config fs cfg) =
     (case last_setting ''warning_level'' (config_file_lines fs cfg) of
        None \<Rightarrow> warning_level cfg | Some v \<Rightarrow> atoi v)
   \<and> critical_level (load_config fs cfg) =
     (case last_setting ''critical_level'' (config_file_lines fs cfg) of
        None \<Rightarrow> critical_level cfg | Some v \<Rightarrow> atoi v)
   \<and> check_interval (load_config fs cfg) =
     (case last_setting ''check_interval'' (config_file_lines fs cfg) of
        None \<Rightarrow> check_interval cfg | Some v \<Rightarrow> atoi v)
   \<and> alert_timeout (load_config fs cfg) =
     (case last_setting ''alert_timeout'' (config_file_lines fs cfg) of
        None \<Rightarrow> alert_timeout cfg | Some v \<Rightarrow> atoi v)
   \<and> force_suspend (load_config fs cfg) =
     (case last_setting ''force_suspend'' (config_file_lines fs cfg) of
        None \<Rightarrow> force_suspend cfg | Some v \<Rightarrow> atoi v)
   \<and> impossible_alerts (load_config fs cfg) =
     (case last_setting ''impossible_alerts'' (config_file_lines fs cfg) of
        None \<Rightarrow> impossible_alerts cfg | Some v \<Rightarrow> atoi v)
   \<and> suspend_method (load_config fs cfg) =
     (case last_setting ''suspend_method'' (config_file_lines fs cfg) of
        None \<Rightarrow> suspend_method cfg | Some v \<Rightarrow> atoi v)
   \<and> icon_charging (load_config fs cfg) =
     (case last_setting ''icon_charging'' (config_file_lines fs cfg) of
        None \<Rightarrow> icon_charging cfg | Some v \<Rightarrow> v)
   \<and> icon_battery (load_config fs cfg) =
     (case last_setting ''icon_battery'' (config_file_lines fs cfg) of
        None \<Rightarrow> icon_battery cfg | Some v \<Rightarrow> v)
   \<and> icon_low (load_config fs cfg) =
     (case last_setting ''icon_low'' (config_file_lines fs cfg) of
        None \<Rightarrow> icon_low cfg | Some v \<Rightarrow> v)
   \<and> config_path (load_config fs cfg) = config_path cfg
   \<and> (fs (config_path cfg) = None \<longrightarrow> load_config fs cfg = cfg)"
  unfolding load_config_lines
  by (intro conjI config_lines_field set_config_key_fields config_lines_config_path)
     (simp add: config_file_lines_def)

text \<open>
  The sample file over the defaults: the warning level is 150, the critical level 0,
  the check interval 60; the keys the file does not name keep their defaults. With
  no file at all the defaults stay.
\<close>

theorem load_config_fields_witness:
  "warning_level (load_config config_store default_config) = 150
   \<and> critical_level (load_config config_store default_config) = 0
   \<and> check_interval (load_config config_store default_config) = 60
   \<and> alert_timeout (load_config config_store default_config) = 30
   \<and> force_suspend (load_config config_store default_config) = 1
   \<and> impossible_alerts (load_config config_store default_config) = 1
   \<and> suspend_method (load_config config_store default_config) = 0
   \<and> icon_low (load_config config_store default_config) = ''battery-caution''
   \<and> sysfs_empty (config_path default_config) = None
   \<and> load_config sysfs_empty default_config = default_config"
proof -
  note a = load_config_fields [of config_store default_config]
  note b = load_config_fields [of sysfs_empty default_config]
  have n: "sysfs_empty (config_path default_config) = None"
    by (simp add: sysfs_empty_def)
  have "warning_level (load_config config_store default_config) = 150"
    "critical_level (load_config config_store default_config) = 0"
    "check_interval (load_config config_store default_config) = 60"
    "alert_timeout (load_config config_store default_config) = 30"
    "force_suspend (load_config config_store default_config) = 1"
    "impossible_alerts (load_config config_store default_config) = 1"
    "suspend_method (load_config config_store default_config) = 0"
    "icon_low (load_config config_store default_config) = ''battery-caution''"
    using a [THEN conjunct1] a [THEN conjunct2, THEN conjunct1]
      a [THEN conjunct2, THEN conjunct2, THEN conjunct1]
      a [THEN conjunct2, THEN conjunct2, THEN conjunct2, THEN conjunct1]
      a [THEN conjunct2, THEN conjunct2, THEN conjunct2, THEN conjunct2, THEN conjunct1]
      a [THEN conjunct2, THEN conjunct2, THEN conjunct2, THEN conjunct2, THEN conjunct2,
         THEN conjunct1]
      a [THEN conjunct2, THEN conjunct2, THEN conjunct2, THEN conjunct2, THEN conjunct2,
         THEN conjunct2, THEN conjunct1]
      a [THEN conjunct2, THEN conjunct2, THEN conjunct2, THEN conjunct2, THEN conjunct2,
         THEN conjunct2, THEN conjunct2, THEN conjunct2, THEN conjunct2, THEN conjunct1]
    by (simp_all add: sample_settings sample_values default_values)
  moreover
  have "load_config sysfs_empty default_config = default_config"
    using b [THEN conjunct2, THEN conjunct2, THEN conjunct2, THEN conjunct2, THEN conjunct2,
             THEN conjunct2, THEN conjunct2, THEN conjunct2, THEN conjunct2, THEN conjunct2,
             THEN conjunct2, THEN mp, OF n] .
  ultimately show ?thesis using n by simp
qed

text \<open>
  C8 as the specification words it: the file gives the warning level 150, outside
  1..100, and a critical level that is not a number; the loaded values are 150 and 0,
  not the defaults 20 and 10.
\<close>

theorem out_of_range_kept_counterexample:
  "warning_level (init_default_config None) = 20
   \<and> critical_level (init_default_config None) = 10
   \<and> last_setting ''warning_level'' (read_lines sample_config_file) = Some ''150''
   \<and> last_setting ''critical_level'' (read_lines sample_config_file) = Some ''abc''
   \<and> warning_level (load_config config_store (init_default_config None)) = 150
   \<and> critical_level (load_config config_store (init_default_config None)) = 0"
  by code_simp

end
